theory Spec2Isabelle
  imports Main "HOL-Library.Sublist"
begin

section \<open>Data model\<close>

text \<open>
  The two variants of the application, \<^verbatim>\<open>speech_mod.py\<close> and \<^verbatim>\<open>speech_reg.py\<close>,
  keep their whole state in Streamlit's \<^verbatim>\<open>st.session_state\<close>. Both are embedded over one
  record; definitions taken from \<^verbatim>\<open>speech_mod.py\<close> carry the suffix \<open>_mod\<close>, those
  taken from \<^verbatim>\<open>speech_reg.py\<close> the suffix \<open>_reg\<close>.
\<close>

type_synonym audio = "int list"

text \<open>
  The exceptions the code distinguishes: \<^verbatim>\<open>sr.UnknownValueError\<close>, \<^verbatim>\<open>sr.RequestError\<close>
  and any other subclass of \<^verbatim>\<open>Exception\<close>. The argument is what \<^verbatim>\<open>str(e)\<close> yields.
\<close>

datatype exn = UnknownValueError string | RequestError string | OtherException string

fun str_exn :: "exn \<Rightarrow> string" where
  "str_exn (UnknownValueError m) = m"
| "str_exn (RequestError m) = m"
| "str_exn (OtherException m) = m"

text \<open>
  Calls that leave the program. A microphone handle is the object \<^verbatim>\<open>sr.Microphone()\<close>
  returns; \<open>MicEnter\<close> and \<open>MicExit\<close> are the \<^verbatim>\<open>__enter__\<close> and \<^verbatim>\<open>__exit__\<close> of a
  \<^verbatim>\<open>with\<close> statement on it, which open and close the audio device.
\<close>

datatype event =
    MicNew nat
  | RecognizerNew nat
  | MicEnter nat
  | MicExit nat
  | Calibrate nat
  | Listen nat
  | CallGoogle
  | CallSphinx
  | CallWit

text \<open>
  \<^verbatim>\<open>st.session_state.audio_data\<close>: \<^verbatim>\<open>speech_mod.py\<close> initialises it to \<^verbatim>\<open>None\<close> at
  start-up, \<^verbatim>\<open>speech_reg.py\<close> does not create it before the first
  \<^verbatim>\<open>start_recording\<close>.
\<close>

datatype audio_slot = Missing | PyNone | Captured audio

text \<open>
  The session. \<open>transcript\<close> is a Python value that is a \<^verbatim>\<open>str\<close> or \<^verbatim>\<open>None\<close>;
  \<open>audio_source\<close> and \<open>recognizer\<close> hold object identities; \<open>selected_api\<close>,
  \<open>selected_language\<close> and \<open>wit_key\<close> are written by the sidebar of \<^verbatim>\<open>main\<close>
  before any button is evaluated. \<open>trace\<close> is the log of external calls, most recent
  first. The fields \<^verbatim>\<open>last_update\<close> and \<^verbatim>\<open>indicator_state\<close> of \<^verbatim>\<open>speech_mod.py\<close>
  are read and written by the blinking indicator only and are left out.
\<close>

record session_state =
  recording :: bool
  transcript :: "string option"
  audio_source :: "nat option"
  recognizer :: nat
  audio_data :: audio_slot
  selected_api :: string
  selected_language :: string
  wit_key :: "string option"
  trace :: "event list"

text \<open>
  The external collaborators (the \<^verbatim>\<open>speech_recognition\<close> library and the device behind
  it). Each takes the trace so far, so that the same call may succeed once and fail
  later. \<open>None\<close> is a normal return, \<open>Some e\<close> and \<open>Inl e\<close> raise \<open>e\<close>.
\<close>

record env =
  microphone_new :: "event list \<Rightarrow> exn option"
  mic_enter :: "event list \<Rightarrow> nat \<Rightarrow> exn option"
  mic_exit :: "event list \<Rightarrow> nat \<Rightarrow> exn option"
  adjust_for_ambient_noise :: "event list \<Rightarrow> nat \<Rightarrow> exn option"
  listen :: "event list \<Rightarrow> nat \<Rightarrow> exn + audio"
  recognize_google :: "event list \<Rightarrow> audio option \<Rightarrow> string \<Rightarrow> exn + string"
  recognize_sphinx :: "event list \<Rightarrow> audio option \<Rightarrow> string \<Rightarrow> exn + string"
  recognize_wit :: "event list \<Rightarrow> audio option \<Rightarrow> string \<Rightarrow> exn + string"
  none_context_error :: exn
  missing_attribute_error :: exn

datatype outcome = Done | Raised exn | RerunRequested

definition record_event :: "event \<Rightarrow> session_state \<Rightarrow> session_state" where
  "record_event ev s = s\<lparr>trace := ev # trace s\<rparr>"

definition init_mod :: session_state where
  "init_mod = \<lparr>recording = False, transcript = Some [], audio_source = None,
     recognizer = 0, audio_data = PyNone, selected_api = ''Google'',
     selected_language = ''en-US'', wit_key = None, trace = []\<rparr>"

definition init_reg :: session_state where
  "init_reg = \<lparr>recording = False, transcript = Some [], audio_source = None,
     recognizer = 0, audio_data = Missing, selected_api = ''Google'',
     selected_language = ''en-US'', wit_key = None, trace = []\<rparr>"

section \<open>The recognition adapter: \<^verbatim>\<open>transcribe_speech\<close>\<close>

text \<open>Reading \<^verbatim>\<open>st.session_state.audio_data\<close>; an absent attribute raises.\<close>

definition read_audio_data :: "env \<Rightarrow> session_state \<Rightarrow> exn + audio option" where
  "read_audio_data env s =
     (case audio_data s of
        Missing \<Rightarrow> Inl (missing_attribute_error env)
      | PyNone \<Rightarrow> Inr None
      | Captured a \<Rightarrow> Inr (Some a))"

text \<open>
  One call \<^verbatim>\<open>st.session_state.recognizer.recognize_X(st.session_state.audio_data, ...)\<close>:
  the argument is read first, then the provider is invoked (and logged).
\<close>

definition call_recognizer ::
  "env \<Rightarrow> event \<Rightarrow> (event list \<Rightarrow> audio option \<Rightarrow> string \<Rightarrow> exn + string) \<Rightarrow> string
     \<Rightarrow> session_state \<Rightarrow> (exn + string option) \<times> session_state" where
  "call_recognizer env ev f arg s =
     (case read_audio_data env s of
        Inl e \<Rightarrow> (Inl e, s)
      | Inr a \<Rightarrow>
          (case f (trace s) a arg of
             Inl e \<Rightarrow> (Inl e, record_event ev s)
           | Inr t \<Rightarrow> (Inr (Some t), record_event ev s)))"

text \<open>The body of the \<^verbatim>\<open>try\<close> of \<^verbatim>\<open>transcribe_speech\<close> in \<^verbatim>\<open>speech_mod.py\<close>.\<close>

definition transcribe_body_mod ::
  "env \<Rightarrow> string \<Rightarrow> string \<Rightarrow> string option \<Rightarrow> session_state
     \<Rightarrow> (exn + string option) \<times> session_state" where
  "transcribe_body_mod env api language key s =
     (if api = ''Google'' then call_recognizer env CallGoogle (recognize_google env) language s
      else if api = ''Sphinx'' then call_recognizer env CallSphinx (recognize_sphinx env) language s
      else if api = ''Wit.ai'' then
        (case key of
           None \<Rightarrow> (Inr (Some ''Error: Wit.ai API key is required''), s)
         | Some k \<Rightarrow>
             if k = [] then (Inr (Some ''Error: Wit.ai API key is required''), s)
             else call_recognizer env CallWit (recognize_wit env) k s)
      else (Inr None, s))"

fun handler_mod :: "exn \<Rightarrow> string" where
  "handler_mod (UnknownValueError m) = ''Error: Could not understand audio''"
| "handler_mod (RequestError m) = ''Error: API unavailable - '' @ m"
| "handler_mod (OtherException m) = ''Error: '' @ m"

definition transcribe_speech_mod ::
  "env \<Rightarrow> string \<Rightarrow> string \<Rightarrow> string option \<Rightarrow> session_state
     \<Rightarrow> string option \<times> session_state" where
  "transcribe_speech_mod env api language key s =
     (case transcribe_body_mod env api language key s of
        (Inl e, s') \<Rightarrow> (Some (handler_mod e), s')
      | (Inr v, s') \<Rightarrow> (v, s'))"

text \<open>
  The same function in \<^verbatim>\<open>speech_reg.py\<close>: a missing key raises \<^verbatim>\<open>ValueError\<close> inside
  the \<^verbatim>\<open>try\<close>, and the handlers return other texts.
\<close>

definition transcribe_body_reg ::
  "env \<Rightarrow> string \<Rightarrow> string \<Rightarrow> string option \<Rightarrow> session_state
     \<Rightarrow> (exn + string option) \<times> session_state" where
  "transcribe_body_reg env api language key s =
     (if api = ''Google'' then call_recognizer env CallGoogle (recognize_google env) language s
      else if api = ''Sphinx'' then call_recognizer env CallSphinx (recognize_sphinx env) language s
      else if api = ''Wit.ai'' then
        (case key of
           None \<Rightarrow> (Inl (OtherException ''Wit.ai API key is required''), s)
         | Some k \<Rightarrow>
             if k = [] then (Inl (OtherException ''Wit.ai API key is required''), s)
             else call_recognizer env CallWit (recognize_wit env) k s)
      else (Inr None, s))"

fun handler_reg :: "exn \<Rightarrow> string" where
  "handler_reg (UnknownValueError m) = ''Error: Speech not understood''"
| "handler_reg (RequestError m) = ''API Error: '' @ m"
| "handler_reg (OtherException m) = ''Error: '' @ m"

definition transcribe_speech_reg ::
  "env \<Rightarrow> string \<Rightarrow> string \<Rightarrow> string option \<Rightarrow> session_state
     \<Rightarrow> string option \<times> session_state" where
  "transcribe_speech_reg env api language key s =
     (case transcribe_body_reg env api language key s of
        (Inl e, s') \<Rightarrow> (Some (handler_reg e), s')
      | (Inr v, s') \<Rightarrow> (v, s'))"

section \<open>The recording operations\<close>

text \<open>
  \<^verbatim>\<open>with st.session_state.audio_source as source: body\<close>. The context expression is
  evaluated once; \<^verbatim>\<open>None\<close> is no context manager and raises. A failing
  \<^verbatim>\<open>__enter__\<close> skips body and \<^verbatim>\<open>__exit__\<close>; otherwise \<^verbatim>\<open>__exit__\<close> runs whether
  or not the body raised, and an exception of \<^verbatim>\<open>__exit__\<close> replaces the body's.
\<close>

definition with_audio_source ::
  "env \<Rightarrow> (nat \<Rightarrow> session_state \<Rightarrow> exn option \<times> session_state) \<Rightarrow> session_state
     \<Rightarrow> exn option \<times> session_state" where
  "with_audio_source env body s =
     (case audio_source s of
        None \<Rightarrow> (Some (none_context_error env), s)
      | Some h \<Rightarrow>
          (case mic_enter env (trace s) h of
             Some e \<Rightarrow> (Some e, s)
           | None \<Rightarrow>
               (case body h (record_event (MicEnter h) s) of
                  (r, s2) \<Rightarrow>
                    (case mic_exit env (trace s2) h of
                       Some e' \<Rightarrow> (Some e', record_event (MicExit h) s2)
                     | None \<Rightarrow> (r, record_event (MicExit h) s2)))))"

text \<open>\<^verbatim>\<open>st.session_state.audio_data = st.session_state.recognizer.listen(source)\<close>\<close>

definition listen_body :: "env \<Rightarrow> nat \<Rightarrow> session_state \<Rightarrow> exn option \<times> session_state" where
  "listen_body env h s =
     (case listen env (trace s) h of
        Inl e \<Rightarrow> (Some e, record_event (Listen h) s)
      | Inr a \<Rightarrow> (None, (record_event (Listen h) s)\<lparr>audio_data := Captured a\<rparr>))"

text \<open>
  The body of the \<^verbatim>\<open>with\<close> in \<^verbatim>\<open>start_recording\<close> of \<^verbatim>\<open>speech_reg.py\<close>:
  calibration, then \<^verbatim>\<open>audio_data = None\<close>.
\<close>

definition calibrate_body :: "env \<Rightarrow> nat \<Rightarrow> session_state \<Rightarrow> exn option \<times> session_state" where
  "calibrate_body env h s =
     (case adjust_for_ambient_noise env (trace s) h of
        Some e \<Rightarrow> (Some e, record_event (Calibrate h) s)
      | None \<Rightarrow> (None, (record_event (Calibrate h) s)\<lparr>audio_data := PyNone\<rparr>))"

text \<open>\<^verbatim>\<open>st.session_state.audio_source = sr.Microphone()\<close>; the new handle is named by a
  number no earlier object has.\<close>

definition new_microphone :: "env \<Rightarrow> session_state \<Rightarrow> exn option \<times> session_state" where
  "new_microphone env s =
     (case microphone_new env (trace s) of
        Some e \<Rightarrow> (Some e, s)
      | None \<Rightarrow> (None, (record_event (MicNew (length (trace s))) s)
                          \<lparr>audio_source := Some (length (trace s))\<rparr>))"

text \<open>\<^verbatim>\<open>st.session_state.recognizer = sr.Recognizer()\<close>\<close>

definition new_recognizer :: "session_state \<Rightarrow> session_state" where
  "new_recognizer s =
     (record_event (RecognizerNew (length (trace s))) s)\<lparr>recognizer := length (trace s)\<rparr>"

text \<open>
  \<^verbatim>\<open>start_recording\<close>. Both variants set \<open>recording\<close> first and have no
  \<^verbatim>\<open>try\<close>: an exception of \<^verbatim>\<open>sr.Microphone()\<close> or of the calibration leaves the
  operation with \<open>recording\<close> already set.
\<close>

definition start_recording_mod :: "env \<Rightarrow> session_state \<Rightarrow> outcome \<times> session_state" where
  "start_recording_mod env s =
     (case new_microphone env (s\<lparr>recording := True\<rparr>) of
        (Some e, s1) \<Rightarrow> (Raised e, s1)
      | (None, s1) \<Rightarrow> (Done, new_recognizer s1))"

definition start_recording_reg :: "env \<Rightarrow> session_state \<Rightarrow> outcome \<times> session_state" where
  "start_recording_reg env s =
     (case new_microphone env (s\<lparr>recording := True\<rparr>) of
        (Some e, s1) \<Rightarrow> (Raised e, s1)
      | (None, s1) \<Rightarrow>
          (case with_audio_source env (calibrate_body env) s1 of
             (Some e, s2) \<Rightarrow> (Raised e, s2)
           | (None, s2) \<Rightarrow> (Done, s2)))"

text \<open>
  \<^verbatim>\<open>stop_recording\<close>. The \<^verbatim>\<open>st.spinner\<close> around the work only draws a progress
  message and is not modelled. In \<^verbatim>\<open>speech_mod.py\<close> capture and transcription are
  inside \<^verbatim>\<open>try ... except Exception\<close>; \<^verbatim>\<open>transcribe_speech\<close> handles its own
  exceptions, so the handler is reached from the capture only. In \<^verbatim>\<open>speech_reg.py\<close>
  there is no \<^verbatim>\<open>try\<close>.
\<close>

definition stop_recording_mod :: "env \<Rightarrow> session_state \<Rightarrow> outcome \<times> session_state" where
  "stop_recording_mod env s =
     (if recording s then
        (case with_audio_source env (listen_body env) (s\<lparr>recording := False\<rparr>) of
           (Some e, s1) \<Rightarrow> (Done, s1\<lparr>transcript := Some (''Recording error: '' @ str_exn e)\<rparr>)
         | (None, s1) \<Rightarrow>
             (case transcribe_speech_mod env (selected_api s1) (selected_language s1)
                     (wit_key s1) s1 of
                (t, s2) \<Rightarrow> (Done, s2\<lparr>transcript := t\<rparr>)))
      else (Done, s))"

definition stop_recording_reg :: "env \<Rightarrow> session_state \<Rightarrow> outcome \<times> session_state" where
  "stop_recording_reg env s =
     (if recording s then
        (case with_audio_source env (listen_body env) (s\<lparr>recording := False\<rparr>) of
           (Some e, s1) \<Rightarrow> (Raised e, s1)
         | (None, s1) \<Rightarrow>
             (case transcribe_speech_reg env (selected_api s1) (selected_language s1)
                     (wit_key s1) s1 of
                (t, s2) \<Rightarrow> (Done, s2\<lparr>transcript := t\<rparr>)))
      else (Done, s))"

definition pause_recording_mod :: "session_state \<Rightarrow> outcome \<times> session_state" where
  "pause_recording_mod s =
     (if recording s then (Done, s\<lparr>recording := False\<rparr>) else (Done, s))"

text \<open>In \<^verbatim>\<open>speech_reg.py\<close> a pause that took effect ends in \<^verbatim>\<open>st.experimental_rerun()\<close>.\<close>

definition pause_recording_reg :: "session_state \<Rightarrow> outcome \<times> session_state" where
  "pause_recording_reg s =
     (if recording s then (RerunRequested, s\<lparr>recording := False\<rparr>) else (Done, s))"

section \<open>Sequences of intents\<close>

text \<open>
  What the presentation layer can ask for. \<open>Configure\<close> is the sidebar of \<^verbatim>\<open>main\<close>:
  it writes \<^verbatim>\<open>selected_api\<close> and \<^verbatim>\<open>selected_language\<close>, and \<^verbatim>\<open>wit_key\<close> is
  \<^verbatim>\<open>None\<close> unless the selected backend is Wit.ai, when it is the text of the key field.
\<close>

datatype intent = Start | Pause | Stop | Configure string string string

definition configure :: "string \<Rightarrow> string \<Rightarrow> string \<Rightarrow> session_state \<Rightarrow> session_state" where
  "configure api language key_text s =
     s\<lparr>selected_api := api, selected_language := language,
       wit_key := (if api = ''Wit.ai'' then Some key_text else None)\<rparr>"

text \<open>
  An exception that leaves an operation ends the script run; the session state as it was
  at the raise stays in \<^verbatim>\<open>st.session_state\<close> for the next intent.
\<close>

fun step_mod :: "env \<Rightarrow> intent \<Rightarrow> session_state \<Rightarrow> session_state" where
  "step_mod env Start s = snd (start_recording_mod env s)"
| "step_mod env Pause s = snd (pause_recording_mod s)"
| "step_mod env Stop s = snd (stop_recording_mod env s)"
| "step_mod env (Configure a l k) s = configure a l k s"

fun step_reg :: "env \<Rightarrow> intent \<Rightarrow> session_state \<Rightarrow> session_state" where
  "step_reg env Start s = snd (start_recording_reg env s)"
| "step_reg env Pause s = snd (pause_recording_reg s)"
| "step_reg env Stop s = snd (stop_recording_reg env s)"
| "step_reg env (Configure a l k) s = configure a l k s"

fun run_mod :: "env \<Rightarrow> intent list \<Rightarrow> session_state \<Rightarrow> session_state" where
  "run_mod env [] s = s"
| "run_mod env (i # is) s = run_mod env is (step_mod env i s)"

fun run_reg :: "env \<Rightarrow> intent list \<Rightarrow> session_state \<Rightarrow> session_state" where
  "run_reg env [] s = s"
| "run_reg env (i # is) s = run_reg env is (step_reg env i s)"

section \<open>Counting external calls\<close>

fun is_acquire :: "event \<Rightarrow> bool" where
  "is_acquire (MicEnter h) = True"
| "is_acquire _ = False"

fun is_release :: "event \<Rightarrow> bool" where
  "is_release (MicExit h) = True"
| "is_release _ = False"

fun is_mic_new :: "event \<Rightarrow> bool" where
  "is_mic_new (MicNew h) = True"
| "is_mic_new _ = False"

fun is_provider_call :: "event \<Rightarrow> bool" where
  "is_provider_call CallGoogle = True"
| "is_provider_call CallSphinx = True"
| "is_provider_call CallWit = True"
| "is_provider_call _ = False"

definition acquisitions :: "session_state \<Rightarrow> nat" where
  "acquisitions s = length (filter is_acquire (trace s))"

definition releases :: "session_state \<Rightarrow> nat" where
  "releases s = length (filter is_release (trace s))"

definition microphones_created :: "session_state \<Rightarrow> nat" where
  "microphones_created s = length (filter is_mic_new (trace s))"

definition provider_calls :: "session_state \<Rightarrow> nat" where
  "provider_calls s = length (filter is_provider_call (trace s))"

section \<open>Sample environments\<close>

text \<open>Every external call succeeds; the utterance is recognised as \<open>hello\<close>.\<close>

definition env_ok :: env where
  "env_ok = \<lparr>microphone_new = (\<lambda>tr. None), mic_enter = (\<lambda>tr h. None),
     mic_exit = (\<lambda>tr h. None), adjust_for_ambient_noise = (\<lambda>tr h. None),
     listen = (\<lambda>tr h. Inr [1, 2, 3]),
     recognize_google = (\<lambda>tr a l. Inr ''hello''),
     recognize_sphinx = (\<lambda>tr a l. Inr ''hello''),
     recognize_wit = (\<lambda>tr a k. Inr ''hello''),
     none_context_error = OtherException ''__enter__'',
     missing_attribute_error = OtherException ''audio_data''\<rparr>"

text \<open>No recognizer finds speech in any audio.\<close>

definition env_silent :: env where
  "env_silent = env_ok\<lparr>recognize_google := (\<lambda>tr a l. Inl (UnknownValueError [])),
     recognize_sphinx := (\<lambda>tr a l. Inl (UnknownValueError [])),
     recognize_wit := (\<lambda>tr a k. Inl (UnknownValueError []))\<rparr>"

text \<open>The microphone can be opened, but listening fails.\<close>

definition env_no_device :: env where
  "env_no_device = env_ok\<lparr>listen := (\<lambda>tr h. Inl (OtherException ''device unavailable''))\<rparr>"

text \<open>The hosted recognizer cannot be reached.\<close>

definition env_offline :: env where
  "env_offline = env_ok\<lparr>recognize_google := (\<lambda>tr a l. Inl (RequestError ''no route''))\<rparr>"

section \<open>Properties\<close>

subsection \<open>The device is opened and closed in pairs\<close>

lemma balance_field_updates [simp]:
  "acquisitions (s\<lparr>recording := b\<rparr>) = acquisitions s"
  "releases (s\<lparr>recording := b\<rparr>) = releases s"
  "acquisitions (s\<lparr>transcript := t\<rparr>) = acquisitions s"
  "releases (s\<lparr>transcript := t\<rparr>) = releases s"
  by (simp_all add: acquisitions_def releases_def)

lemma balance_transcribe_mod:
  "acquisitions (snd (transcribe_speech_mod env api l k s)) = acquisitions s \<and>
   releases (snd (transcribe_speech_mod env api l k s)) = releases s"
  by (simp add: transcribe_speech_mod_def transcribe_body_mod_def call_recognizer_def
      record_event_def acquisitions_def releases_def
      split: option.splits sum.splits prod.splits)

lemma balance_transcribe_reg:
  "acquisitions (snd (transcribe_speech_reg env api l k s)) = acquisitions s \<and>
   releases (snd (transcribe_speech_reg env api l k s)) = releases s"
  by (simp add: transcribe_speech_reg_def transcribe_body_reg_def call_recognizer_def
      record_event_def acquisitions_def releases_def
      split: option.splits sum.splits prod.splits)

lemma balance_listen:
  "acquisitions (snd (listen_body env h s)) = acquisitions s \<and>
   releases (snd (listen_body env h s)) = releases s"
  by (simp add: listen_body_def acquisitions_def releases_def record_event_def
      split: sum.splits)

lemma balance_calibrate:
  "acquisitions (snd (calibrate_body env h s)) = acquisitions s \<and>
   releases (snd (calibrate_body env h s)) = releases s"
  by (simp add: calibrate_body_def acquisitions_def releases_def record_event_def
      split: option.splits)

lemma balance_new_microphone:
  "acquisitions (snd (new_microphone env s)) = acquisitions s \<and>
   releases (snd (new_microphone env s)) = releases s"
  by (simp add: new_microphone_def acquisitions_def releases_def record_event_def
      split: option.splits)

lemma balance_new_recognizer:
  "acquisitions (new_recognizer s) = acquisitions s \<and>
   releases (new_recognizer s) = releases s"
  by (simp add: new_recognizer_def acquisitions_def releases_def record_event_def)

text \<open>
  A \<^verbatim>\<open>with\<close> block whose body opens and closes nothing keeps the two counts equal:
  either the device was never opened, or it was opened once and closed once.
\<close>

lemma balance_with:
  assumes body: "\<And>h s. acquisitions (snd (body h s)) = acquisitions s \<and>
                        releases (snd (body h s)) = releases s"
    and bal: "acquisitions s = releases s"
  shows "acquisitions (snd (with_audio_source env body s)) =
         releases (snd (with_audio_source env body s))"
proof (cases "audio_source s")
  case None
  then show ?thesis using bal by (simp add: with_audio_source_def)
next
  case src: (Some h)
  show ?thesis
  proof (cases "mic_enter env (trace s) h")
    case (Some e)
    then show ?thesis using src bal by (simp add: with_audio_source_def)
  next
    case None
    obtain r s2 where b: "body h (record_event (MicEnter h) s) = (r, s2)" by force
    from body [of h "record_event (MicEnter h) s"] b
    have "acquisitions s2 = Suc (acquisitions s)" and "releases s2 = releases s"
      by (simp_all add: acquisitions_def releases_def record_event_def)
    then show ?thesis using src None b bal
      by (simp add: with_audio_source_def acquisitions_def releases_def record_event_def
          split: option.splits)
  qed
qed

lemma balance_start_mod:
  "acquisitions s = releases s \<Longrightarrow>
   acquisitions (snd (start_recording_mod env s)) = releases (snd (start_recording_mod env s))"
  using balance_new_microphone [of env "s\<lparr>recording := True\<rparr>"]
  by (auto simp: start_recording_mod_def balance_new_recognizer
      split: prod.splits option.splits)

lemma balance_start_reg:
  assumes "acquisitions s = releases s"
  shows "acquisitions (snd (start_recording_reg env s)) =
         releases (snd (start_recording_reg env s))"
proof -
  obtain r s1 where n: "new_microphone env (s\<lparr>recording := True\<rparr>) = (r, s1)" by force
  with balance_new_microphone [of env "s\<lparr>recording := True\<rparr>"] assms
  have b1: "acquisitions s1 = releases s1" by simp
  from balance_with [of "calibrate_body env" s1 env, OF balance_calibrate b1]
  show ?thesis using n b1
    by (auto simp: start_recording_reg_def split: prod.splits option.splits)
qed

lemma balance_stop_mod:
  assumes "acquisitions s = releases s"
  shows "acquisitions (snd (stop_recording_mod env s)) =
         releases (snd (stop_recording_mod env s))"
proof -
  have b0: "acquisitions (s\<lparr>recording := False\<rparr>) = releases (s\<lparr>recording := False\<rparr>)"
    using assms by simp
  obtain r s1 where
    w: "with_audio_source env (listen_body env) (s\<lparr>recording := False\<rparr>) = (r, s1)"
    by force
  from balance_with [of "listen_body env" "s\<lparr>recording := False\<rparr>" env,
      OF balance_listen b0] w
  have b1: "acquisitions s1 = releases s1" by simp
  obtain t s2 where
    tr: "transcribe_speech_mod env (selected_api s1) (selected_language s1) (wit_key s1) s1
           = (t, s2)"
    by force
  with balance_transcribe_mod
    [of env "selected_api s1" "selected_language s1" "wit_key s1" s1] b1
  have b2: "acquisitions s2 = releases s2" by simp
  show ?thesis using assms w b1 tr b2
    by (simp add: stop_recording_mod_def split: option.splits)
qed

lemma balance_stop_reg:
  assumes "acquisitions s = releases s"
  shows "acquisitions (snd (stop_recording_reg env s)) =
         releases (snd (stop_recording_reg env s))"
proof -
  have b0: "acquisitions (s\<lparr>recording := False\<rparr>) = releases (s\<lparr>recording := False\<rparr>)"
    using assms by simp
  obtain r s1 where
    w: "with_audio_source env (listen_body env) (s\<lparr>recording := False\<rparr>) = (r, s1)"
    by force
  from balance_with [of "listen_body env" "s\<lparr>recording := False\<rparr>" env,
      OF balance_listen b0] w
  have b1: "acquisitions s1 = releases s1" by simp
  obtain t s2 where
    tr: "transcribe_speech_reg env (selected_api s1) (selected_language s1) (wit_key s1) s1
           = (t, s2)"
    by force
  with balance_transcribe_reg
    [of env "selected_api s1" "selected_language s1" "wit_key s1" s1] b1
  have b2: "acquisitions s2 = releases s2" by simp
  show ?thesis using assms w b1 tr b2
    by (simp add: stop_recording_reg_def split: option.splits)
qed

lemma balance_pause_configure [simp]:
  "acquisitions (snd (pause_recording_mod s)) = acquisitions s"
  "releases (snd (pause_recording_mod s)) = releases s"
  "acquisitions (snd (pause_recording_reg s)) = acquisitions s"
  "releases (snd (pause_recording_reg s)) = releases s"
  "acquisitions (configure a l k s) = acquisitions s"
  "releases (configure a l k s) = releases s"
  by (simp_all add: pause_recording_mod_def pause_recording_reg_def configure_def
      acquisitions_def releases_def)

lemma balance_step_mod:
  "acquisitions s = releases s \<Longrightarrow>
   acquisitions (step_mod env i s) = releases (step_mod env i s)"
  by (cases i) (simp_all add: balance_start_mod balance_stop_mod)

lemma balance_step_reg:
  "acquisitions s = releases s \<Longrightarrow>
   acquisitions (step_reg env i s) = releases (step_reg env i s)"
  by (cases i) (simp_all add: balance_start_reg balance_stop_reg)

lemma balance_run_mod:
  "acquisitions s = releases s \<Longrightarrow>
   acquisitions (run_mod env is s) = releases (run_mod env is s)"
  by (induction "is" arbitrary: s) (simp_all add: balance_step_mod)

lemma balance_run_reg:
  "acquisitions s = releases s \<Longrightarrow>
   acquisitions (run_reg env is s) = releases (run_reg env is s)"
  by (induction "is" arbitrary: s) (simp_all add: balance_step_reg)

text \<open>
  C7. The microphone device is opened by the \<^verbatim>\<open>__enter__\<close> of a \<^verbatim>\<open>with\<close> statement
  and closed by its \<^verbatim>\<open>__exit__\<close>; \<^verbatim>\<open>sr.Microphone()\<close> in \<^verbatim>\<open>start_recording\<close> only
  constructs the handle object. After every sequence of start, pause, stop and settings
  intents from the initial session, whatever the collaborators do and whichever
  exceptions escape, the device has been closed as often as it has been opened, in both
  variants. This holds after every sequence, so in particular after those that end with
  the session not recording.
\<close>

theorem microphone_acquisitions_equal_releases:
  "acquisitions (run_mod env is init_mod) = releases (run_mod env is init_mod) \<and>
   acquisitions (run_reg env is init_reg) = releases (run_reg env is init_reg)"
proof -
  have "acquisitions init_mod = releases init_mod"
    and "acquisitions init_reg = releases init_reg"
    by (simp_all add: acquisitions_def releases_def init_mod_def init_reg_def)
  then show ?thesis
    by (simp add: balance_run_mod balance_run_reg)
qed

subsection \<open>The adapter\<close>

text \<open>
  C3. Whenever \<^verbatim>\<open>transcribe_speech\<close> is called for the backend Wit.ai with a key that
  is \<^verbatim>\<open>None\<close> or the empty string, it returns the configuration error
  \<^verbatim>\<open>Error: Wit.ai API key is required\<close> and leaves the session, the trace of external
  calls included, as it was: no provider has been invoked. \<^verbatim>\<open>speech_mod.py\<close> returns
  the text directly; \<^verbatim>\<open>speech_reg.py\<close> raises \<^verbatim>\<open>ValueError\<close>, which its own last
  handler turns into the same text.
\<close>

theorem wit_without_key_is_config_error:
  assumes "key = None \<or> key = Some []"
  shows "transcribe_speech_mod env ''Wit.ai'' language key s =
           (Some ''Error: Wit.ai API key is required'', s) \<and>
         transcribe_speech_reg env ''Wit.ai'' language key s =
           (Some ''Error: Wit.ai API key is required'', s) \<and>
         provider_calls (snd (transcribe_speech_mod env ''Wit.ai'' language key s)) =
           provider_calls s \<and>
         provider_calls (snd (transcribe_speech_reg env ''Wit.ai'' language key s)) =
           provider_calls s"
  using assms
  by (auto simp: transcribe_speech_mod_def transcribe_body_mod_def
      transcribe_speech_reg_def transcribe_body_reg_def)

theorem wit_without_key_is_config_error_witness:
  "transcribe_speech_mod env_ok ''Wit.ai'' ''en-US'' None init_mod =
     (Some ''Error: Wit.ai API key is required'', init_mod) \<and>
   transcribe_speech_reg env_ok ''Wit.ai'' ''en-US'' (Some []) init_reg =
     (Some ''Error: Wit.ai API key is required'', init_reg) \<and>
   provider_calls (snd (transcribe_speech_mod env_ok ''Wit.ai'' ''en-US'' None init_mod)) = 0"
proof -
  have h1: "(None :: string option) = None \<or> None = Some []" by simp
  have h2: "Some [] = (None :: string option) \<or> Some [] = Some ([] :: string)" by simp
  have p: "provider_calls init_mod = 0"
    by (simp add: provider_calls_def init_mod_def)
  show ?thesis
    using wit_without_key_is_config_error [OF h1, of env_ok "''en-US''" init_mod]
      wit_without_key_is_config_error [OF h2, of env_ok "''en-US''" init_reg] p
    by simp
qed

text \<open>
  C10. For a backend name other than \<^verbatim>\<open>Google\<close>, \<^verbatim>\<open>Sphinx\<close> and \<^verbatim>\<open>Wit.ai\<close>,
  whatever the language and the key, \<^verbatim>\<open>transcribe_speech\<close> falls through its
  \<^verbatim>\<open>if\<close>/\<^verbatim>\<open>elif\<close> chain and returns \<^verbatim>\<open>None\<close>: neither a transcript nor an error
  text. Nothing is read and no provider is called.
\<close>

theorem unknown_backend_returns_None:
  assumes "api \<noteq> ''Google''" and "api \<noteq> ''Sphinx''" and "api \<noteq> ''Wit.ai''"
  shows "transcribe_speech_mod env api language key s = (None, s) \<and>
         transcribe_speech_reg env api language key s = (None, s)"
  using assms
  by (simp add: transcribe_speech_mod_def transcribe_body_mod_def
      transcribe_speech_reg_def transcribe_body_reg_def)

theorem unknown_backend_returns_None_witness:
  "transcribe_speech_mod env_ok ''Bing'' ''en-US'' (Some ''k'') init_mod = (None, init_mod) \<and>
   transcribe_speech_reg env_ok ''Bing'' ''en-US'' (Some ''k'') init_reg = (None, init_reg)"
proof -
  have a: "''Bing'' \<noteq> ''Google''" and b: "''Bing'' \<noteq> ''Sphinx''"
    and c: "''Bing'' \<noteq> ''Wit.ai''"
    by simp_all
  show ?thesis
    using unknown_backend_returns_None [OF a b c, of env_ok "''en-US''" "Some ''k''" init_mod]
      unknown_backend_returns_None [OF a b c, of env_ok "''en-US''" "Some ''k''" init_reg]
    by simp
qed

subsection \<open>Stop and pause outside a recording\<close>

text \<open>
  C4. \<^verbatim>\<open>stop_recording\<close> called while the session is not recording returns the
  session exactly as it was: \<open>transcript\<close> and \<open>recording\<close> are unchanged, and since
  the trace of external calls is part of the session, the microphone was not opened,
  nothing was captured and \<^verbatim>\<open>transcribe_speech\<close> called no provider.
\<close>

theorem stop_when_not_recording_is_noop:
  assumes "\<not> recording s"
  shows "stop_recording_mod env s = (Done, s) \<and> stop_recording_reg env s = (Done, s)"
  using assms by (simp add: stop_recording_mod_def stop_recording_reg_def)

theorem stop_when_not_recording_is_noop_witness:
  "\<not> recording init_mod \<and> stop_recording_mod env_no_device init_mod = (Done, init_mod) \<and>
   stop_recording_reg env_no_device init_mod = (Done, init_mod)"
proof -
  have h: "\<not> recording init_mod" by (simp add: init_mod_def)
  from stop_when_not_recording_is_noop [OF h, of env_no_device] h show ?thesis by simp
qed

text \<open>
  C9. \<^verbatim>\<open>pause_recording\<close> during a recording clears the \<open>recording\<close> flag and leaves
  every other field of the session as it was (in \<^verbatim>\<open>speech_reg.py\<close> it then asks
  Streamlit for a rerun). The session has no field that would tell a paused recording
  from an idle one, so a \<^verbatim>\<open>stop_recording\<close> that follows does nothing and captures
  nothing. \<^verbatim>\<open>pause_recording\<close> outside a recording changes nothing.
\<close>

theorem pause_only_clears_recording:
  "(recording s \<longrightarrow>
      pause_recording_mod s = (Done, s\<lparr>recording := False\<rparr>) \<and>
      pause_recording_reg s = (RerunRequested, s\<lparr>recording := False\<rparr>) \<and>
      stop_recording_mod env (snd (pause_recording_mod s)) = (Done, s\<lparr>recording := False\<rparr>) \<and>
      stop_recording_reg env (snd (pause_recording_reg s)) = (Done, s\<lparr>recording := False\<rparr>)) \<and>
   (\<not> recording s \<longrightarrow>
      pause_recording_mod s = (Done, s) \<and> pause_recording_reg s = (Done, s))"
  by (simp add: pause_recording_mod_def pause_recording_reg_def
      stop_recording_mod_def stop_recording_reg_def)

theorem pause_only_clears_recording_witness:
  "recording (init_mod\<lparr>recording := True\<rparr>) \<and>
   pause_recording_mod (init_mod\<lparr>recording := True\<rparr>) = (Done, init_mod) \<and>
   pause_recording_reg (init_reg\<lparr>recording := True\<rparr>) = (RerunRequested, init_reg) \<and>
   stop_recording_mod env_ok (snd (pause_recording_mod (init_mod\<lparr>recording := True\<rparr>)))
     = (Done, init_mod) \<and>
   \<not> recording init_mod \<and>
   pause_recording_mod init_mod = (Done, init_mod) \<and>
   pause_recording_reg init_mod = (Done, init_mod)"
proof -
  have r: "recording (init_mod\<lparr>recording := True\<rparr>)"
    and r': "recording (init_reg\<lparr>recording := True\<rparr>)"
    and n: "\<not> recording init_mod"
    by (simp_all add: init_mod_def)
  have e: "init_mod\<lparr>recording := True\<rparr>\<lparr>recording := False\<rparr> = init_mod"
    and e': "init_reg\<lparr>recording := True\<rparr>\<lparr>recording := False\<rparr> = init_reg"
    by (simp_all add: init_mod_def init_reg_def)
  from pause_only_clears_recording [of "init_mod\<lparr>recording := True\<rparr>" env_ok] r
  have 1: "pause_recording_mod (init_mod\<lparr>recording := True\<rparr>) = (Done, init_mod) \<and>
           stop_recording_mod env_ok
             (snd (pause_recording_mod (init_mod\<lparr>recording := True\<rparr>))) = (Done, init_mod)"
    unfolding e by blast
  from pause_only_clears_recording [of "init_reg\<lparr>recording := True\<rparr>" env_ok] r'
  have 2: "pause_recording_reg (init_reg\<lparr>recording := True\<rparr>) = (RerunRequested, init_reg)"
    unfolding e' by blast
  from pause_only_clears_recording [of init_mod env_ok] n
  have 3: "pause_recording_mod init_mod = (Done, init_mod) \<and>
           pause_recording_reg init_mod = (Done, init_mod)"
    by blast
  from r n 1 2 3 show ?thesis by blast
qed

subsection \<open>Failures during stop\<close>

lemmas op_defs =
  start_recording_mod_def start_recording_reg_def stop_recording_mod_def
  stop_recording_reg_def new_microphone_def new_recognizer_def with_audio_source_def
  listen_body_def calibrate_body_def record_event_def transcribe_speech_mod_def
  transcribe_speech_reg_def transcribe_body_mod_def transcribe_body_reg_def
  call_recognizer_def read_audio_data_def

lemmas sample_defs =
  env_ok_def env_silent_def env_no_device_def env_offline_def init_mod_def init_reg_def

lemma with_listen_frame:
  assumes "with_audio_source env (listen_body env) s = (r, s1)"
  shows "recording s1 = recording s \<and> transcript s1 = transcript s \<and>
         selected_api s1 = selected_api s \<and> wit_key s1 = wit_key s"
  using assms
  by (auto simp: with_audio_source_def listen_body_def record_event_def
      split: option.splits sum.splits prod.splits)

lemma transcribe_mod_frame:
  "recording (snd (transcribe_speech_mod env api l k s)) = recording s"
  by (simp add: transcribe_speech_mod_def transcribe_body_mod_def call_recognizer_def
      record_event_def split: option.splits sum.splits prod.splits)

text \<open>
  In \<^verbatim>\<open>speech_mod.py\<close> the \<^verbatim>\<open>try\<close> of \<^verbatim>\<open>stop_recording\<close> catches every exception
  of the capture, and \<^verbatim>\<open>transcribe_speech\<close> catches its own: the operation always
  returns normally, with the session not recording.
\<close>

lemma stop_recording_mod_never_raises:
  "fst (stop_recording_mod env s) = Done \<and> \<not> recording (snd (stop_recording_mod env s))"
proof (cases "recording s")
  case False
  then show ?thesis by (simp add: stop_recording_mod_def)
next
  case True
  obtain r s1 where
    w: "with_audio_source env (listen_body env) (s\<lparr>recording := False\<rparr>) = (r, s1)"
    by force
  from with_listen_frame [OF w] have r1: "\<not> recording s1" by simp
  obtain t s2 where
    tr: "transcribe_speech_mod env (selected_api s1) (selected_language s1) (wit_key s1) s1
           = (t, s2)"
    by force
  with transcribe_mod_frame
    [of env "selected_api s1" "selected_language s1" "wit_key s1" s1] r1
  have "\<not> recording s2" by simp
  with True w tr r1 show ?thesis
    by (simp add: stop_recording_mod_def split: option.splits)
qed

text \<open>
  In \<^verbatim>\<open>speech_reg.py\<close> the capture is not inside a \<^verbatim>\<open>try\<close>: an exception of the
  \<^verbatim>\<open>with\<close> block leaves \<^verbatim>\<open>stop_recording\<close>, and \<open>transcript\<close> keeps its old value.
\<close>

lemma stop_recording_reg_capture_failure:
  assumes "recording s"
    and "with_audio_source env (listen_body env) (s\<lparr>recording := False\<rparr>) = (Some e, s1)"
  shows "stop_recording_reg env s = (Raised e, s1) \<and> transcript s1 = transcript s \<and>
         \<not> recording s1"
  using assms with_listen_frame [OF assms(2)]
  by (simp add: stop_recording_reg_def)

text \<open>
  C1. Every failure in \<^verbatim>\<open>stop_recording\<close> should end as an error text in
  \<open>transcript\<close>, with no exception leaving the operation and the session idle.
  \<^verbatim>\<open>speech_mod.py\<close> does so (\<open>stop_recording_mod_never_raises\<close>). In
  \<^verbatim>\<open>speech_reg.py\<close>, after a start from the initial session, a \<^verbatim>\<open>listen\<close> that raises
  makes \<^verbatim>\<open>stop_recording\<close> raise the same exception; \<open>transcript\<close> is still the
  empty text of the initial session, and only \<open>recording\<close> has been cleared.
\<close>

theorem stop_recording_reg_lets_capture_failure_escape:
  "fst (stop_recording_reg env_no_device (run_reg env_no_device [Start] init_reg)) =
     Raised (OtherException ''device unavailable'') \<and>
   transcript (snd (stop_recording_reg env_no_device (run_reg env_no_device [Start] init_reg))) =
     Some [] \<and>
   \<not> recording (snd (stop_recording_reg env_no_device (run_reg env_no_device [Start] init_reg))) \<and>
   stop_recording_mod env_no_device (run_mod env_no_device [Start] init_mod) =
     (Done, (run_mod env_no_device [Start, Stop] init_mod)) \<and>
   transcript (run_mod env_no_device [Start, Stop] init_mod) =
     Some ''Recording error: device unavailable''"
  by (simp add: op_defs sample_defs)

subsection \<open>Start\<close>

text \<open>
  C2, as the claim states it, fails: \<^verbatim>\<open>start_recording\<close> has no guard. With
  collaborators that never fail, a first start from the initial session constructs one
  microphone handle, and a second start, issued while recording, constructs another one
  and stores it in \<open>audio_source\<close> in place of the first.
\<close>

theorem second_start_constructs_second_microphone:
  "recording (snd (start_recording_mod env_ok init_mod)) \<and>
   microphones_created (snd (start_recording_mod env_ok init_mod)) = 1 \<and>
   audio_source (snd (start_recording_mod env_ok init_mod)) = Some 0 \<and>
   microphones_created
     (snd (start_recording_mod env_ok (snd (start_recording_mod env_ok init_mod)))) = 2 \<and>
   audio_source
     (snd (start_recording_mod env_ok (snd (start_recording_mod env_ok init_mod)))) = Some 2 \<and>
   recording (snd (start_recording_reg env_ok init_reg)) \<and>
   microphones_created (snd (start_recording_reg env_ok init_reg)) = 1 \<and>
   audio_source (snd (start_recording_reg env_ok init_reg)) = Some 0 \<and>
   microphones_created
     (snd (start_recording_reg env_ok (snd (start_recording_reg env_ok init_reg)))) = 2 \<and>
   audio_source
     (snd (start_recording_reg env_ok (snd (start_recording_reg env_ok init_reg)))) = Some 4"
  by (simp add: op_defs sample_defs microphones_created_def)

lemma with_calibrate_frame:
  assumes "with_audio_source env (calibrate_body env) s = (r, s1)"
  shows "recording s1 = recording s \<and> audio_source s1 = audio_source s \<and>
         microphones_created s1 = microphones_created s"
  using assms
  by (auto simp: with_audio_source_def calibrate_body_def record_event_def
      microphones_created_def split: option.splits prod.splits)

text \<open>
  C2, amended. \<^verbatim>\<open>start_recording\<close> sets \<open>recording\<close> from any session, so a start
  from an idle session yields a recording one. It is not guarded: whenever
  \<^verbatim>\<open>sr.Microphone()\<close> succeeds, idle or recording, the call constructs one more
  microphone handle and stores the new handle in \<open>audio_source\<close>.
\<close>

theorem start_recording_is_unguarded:
  "recording (snd (start_recording_mod env s)) \<and>
   recording (snd (start_recording_reg env s)) \<and>
   (microphone_new env (trace s) = None \<longrightarrow>
      microphones_created (snd (start_recording_mod env s)) = Suc (microphones_created s) \<and>
      audio_source (snd (start_recording_mod env s)) = Some (length (trace s)) \<and>
      microphones_created (snd (start_recording_reg env s)) = Suc (microphones_created s) \<and>
      audio_source (snd (start_recording_reg env s)) = Some (length (trace s)))"
proof -
  have m: "recording (snd (start_recording_mod env s))"
    by (simp add: start_recording_mod_def new_microphone_def new_recognizer_def
        record_event_def split: option.splits)
  obtain r0 s0 where n: "new_microphone env (s\<lparr>recording := True\<rparr>) = (r0, s0)" by force
  then have s0: "recording s0"
    by (auto simp: new_microphone_def record_event_def split: option.splits)
  obtain r s1 where w: "with_audio_source env (calibrate_body env) s0 = (r, s1)" by force
  from with_calibrate_frame [OF w] s0 n w
  have g: "recording (snd (start_recording_reg env s))"
    by (auto simp: start_recording_reg_def split: option.splits)
  have c: "microphones_created (snd (start_recording_mod env s)) = Suc (microphones_created s) \<and>
      audio_source (snd (start_recording_mod env s)) = Some (length (trace s)) \<and>
      microphones_created (snd (start_recording_reg env s)) = Suc (microphones_created s) \<and>
      audio_source (snd (start_recording_reg env s)) = Some (length (trace s))"
    if ok: "microphone_new env (trace s) = None"
  proof -
    from ok n have s0_eq: "r0 = None"
      "microphones_created s0 = Suc (microphones_created s)"
      "audio_source s0 = Some (length (trace s))"
      by (auto simp: new_microphone_def record_event_def microphones_created_def)
    from ok have "microphones_created (snd (start_recording_mod env s)) =
        Suc (microphones_created s) \<and>
      audio_source (snd (start_recording_mod env s)) = Some (length (trace s))"
      by (simp add: start_recording_mod_def new_microphone_def new_recognizer_def
          record_event_def microphones_created_def)
    moreover from with_calibrate_frame [OF w] s0_eq n w
    have "microphones_created (snd (start_recording_reg env s)) =
        Suc (microphones_created s) \<and>
      audio_source (snd (start_recording_reg env s)) = Some (length (trace s))"
      by (auto simp: start_recording_reg_def split: option.splits)
    ultimately show ?thesis by blast
  qed
  from m g c show ?thesis by blast
qed

theorem start_recording_is_unguarded_witness:
  "recording (init_mod\<lparr>recording := True\<rparr>) \<and>
   microphone_new env_ok (trace (init_mod\<lparr>recording := True\<rparr>)) = None \<and>
   recording (snd (start_recording_mod env_ok (init_mod\<lparr>recording := True\<rparr>))) \<and>
   microphones_created (snd (start_recording_mod env_ok (init_mod\<lparr>recording := True\<rparr>))) =
     Suc (microphones_created (init_mod\<lparr>recording := True\<rparr>)) \<and>
   audio_source (snd (start_recording_reg env_ok (init_mod\<lparr>recording := True\<rparr>))) = Some 0"
proof -
  have h: "microphone_new env_ok (trace (init_mod\<lparr>recording := True\<rparr>)) = None"
    by (simp add: env_ok_def)
  have r: "recording (init_mod\<lparr>recording := True\<rparr>)"
    and l: "length (trace (init_mod\<lparr>recording := True\<rparr>)) = 0"
    by (simp_all add: init_mod_def)
  from start_recording_is_unguarded [of env_ok "init_mod\<lparr>recording := True\<rparr>"] h r l
  show ?thesis by simp
qed

subsection \<open>The captured audio across recording cycles\<close>

text \<open>
  C5, as the claim states it, fails for \<^verbatim>\<open>speech_mod.py\<close>, whose
  \<^verbatim>\<open>start_recording\<close> never assigns \<open>audio_data\<close>: after one complete cycle the
  session is idle, and the start of the second cycle leaves the audio of the first cycle
  in \<open>audio_data\<close> while nothing has been captured in the second.
\<close>

theorem start_mod_keeps_previous_audio:
  "\<not> recording (run_mod env_ok [Start, Stop] init_mod) \<and>
   audio_data (run_mod env_ok [Start, Stop] init_mod) = Captured [1, 2, 3] \<and>
   recording (snd (start_recording_mod env_ok (run_mod env_ok [Start, Stop] init_mod))) \<and>
   audio_data (snd (start_recording_mod env_ok (run_mod env_ok [Start, Stop] init_mod))) =
     Captured [1, 2, 3]"
  by (simp add: op_defs sample_defs)

lemma with_listen_captures:
  assumes "audio_source s = Some h" and "mic_enter env (trace s) h = None"
    and "listen env (MicEnter h # trace s) h = Inr a"
  shows "audio_data (snd (with_audio_source env (listen_body env) s)) = Captured a"
  using assms
  by (simp add: with_audio_source_def listen_body_def record_event_def
      split: option.splits)

lemma transcribe_audio_frame:
  "audio_data (snd (transcribe_speech_mod env api l k s)) = audio_data s \<and>
   audio_data (snd (transcribe_speech_reg env api l k s)) = audio_data s"
  by (simp add: transcribe_speech_mod_def transcribe_body_mod_def
      transcribe_speech_reg_def transcribe_body_reg_def call_recognizer_def
      record_event_def split: option.splits sum.splits prod.splits)

lemma stop_captures:
  assumes "recording s" and "audio_source s = Some h"
    and "mic_enter env (trace s) h = None"
    and "listen env (MicEnter h # trace s) h = Inr a"
  shows "audio_data (snd (stop_recording_mod env s)) = Captured a \<and>
         audio_data (snd (stop_recording_reg env s)) = Captured a"
proof -
  obtain r s1 where
    w: "with_audio_source env (listen_body env) (s\<lparr>recording := False\<rparr>) = (r, s1)"
    by force
  from with_listen_captures [of "s\<lparr>recording := False\<rparr>" h env a] assms w
  have a1: "audio_data s1 = Captured a" by simp
  from transcribe_audio_frame
    [of env "selected_api s1" "selected_language s1" "wit_key s1" s1] a1
  have "audio_data (snd (transcribe_speech_mod env (selected_api s1) (selected_language s1)
                           (wit_key s1) s1)) = Captured a"
    and "audio_data (snd (transcribe_speech_reg env (selected_api s1) (selected_language s1)
                           (wit_key s1) s1)) = Captured a"
    by simp_all
  with assms(1) w a1 show ?thesis
    by (auto simp: stop_recording_mod_def stop_recording_reg_def
        split: option.splits prod.splits)
qed

text \<open>
  C5, amended. In \<^verbatim>\<open>speech_reg.py\<close> a \<^verbatim>\<open>start_recording\<close> that returns normally has
  reset \<open>audio_data\<close> to \<^verbatim>\<open>None\<close>. In \<^verbatim>\<open>speech_mod.py\<close> \<^verbatim>\<open>start_recording\<close>
  leaves \<open>audio_data\<close> as it was. In both variants \<open>audio_data\<close> is replaced by the
  capture of \<^verbatim>\<open>stop_recording\<close>: once the microphone has been opened and \<^verbatim>\<open>listen\<close>
  has returned audio, \<open>audio_data\<close> holds that audio when the operation ends.
\<close>

theorem audio_data_across_cycles:
  "audio_data (snd (start_recording_mod env s)) = audio_data s \<and>
   (fst (start_recording_reg env s) = Done \<longrightarrow>
      audio_data (snd (start_recording_reg env s)) = PyNone) \<and>
   (recording s \<and> audio_source s = Some h \<and> mic_enter env (trace s) h = None \<and>
    listen env (MicEnter h # trace s) h = Inr a \<longrightarrow>
      audio_data (snd (stop_recording_mod env s)) = Captured a \<and>
      audio_data (snd (stop_recording_reg env s)) = Captured a)"
proof -
  have 1: "audio_data (snd (start_recording_mod env s)) = audio_data s"
    by (simp add: start_recording_mod_def new_microphone_def new_recognizer_def
        record_event_def split: option.splits)
  have 2: "audio_data (snd (start_recording_reg env s)) = PyNone"
    if "fst (start_recording_reg env s) = Done"
    using that
    by (auto simp: start_recording_reg_def new_microphone_def with_audio_source_def
        calibrate_body_def record_event_def split: option.splits prod.splits)
  from 1 2 stop_captures [of s h env a] show ?thesis by blast
qed

theorem audio_data_across_cycles_witness:
  "fst (start_recording_reg env_ok init_reg) = Done \<and>
   audio_data (snd (start_recording_reg env_ok init_reg)) = PyNone \<and>
   recording (init_mod\<lparr>recording := True, audio_source := Some 0\<rparr>) \<and>
   listen env_ok (MicEnter 0 # trace (init_mod\<lparr>recording := True, audio_source := Some 0\<rparr>)) 0
     = Inr [1, 2, 3] \<and>
   audio_data (snd (stop_recording_mod env_ok
     (init_mod\<lparr>recording := True, audio_source := Some 0\<rparr>))) = Captured [1, 2, 3] \<and>
   audio_data (snd (stop_recording_reg env_ok
     (init_mod\<lparr>recording := True, audio_source := Some 0\<rparr>))) = Captured [1, 2, 3]"
proof -
  let ?s = "init_mod\<lparr>recording := True, audio_source := Some 0\<rparr>"
  have d: "fst (start_recording_reg env_ok init_reg) = Done"
    by (simp add: op_defs sample_defs)
  have h: "recording ?s" "audio_source ?s = Some 0" "mic_enter env_ok (trace ?s) 0 = None"
    "listen env_ok (MicEnter 0 # trace ?s) 0 = Inr [1, 2, 3]"
    by (simp_all add: init_mod_def env_ok_def)
  from audio_data_across_cycles [of env_ok init_reg 0 "[1, 2, 3]"] d
  have 1: "audio_data (snd (start_recording_reg env_ok init_reg)) = PyNone" by blast
  from audio_data_across_cycles [of env_ok ?s 0 "[1, 2, 3]"] h
  have 2: "audio_data (snd (stop_recording_mod env_ok ?s)) = Captured [1, 2, 3] \<and>
           audio_data (snd (stop_recording_reg env_ok ?s)) = Captured [1, 2, 3]"
    by blast
  from d h 1 2 show ?thesis by blast
qed

subsection \<open>Error texts\<close>







subsection \<open>Audio without recognisable speech\<close>

text \<open>
  C8, as the claim states it, fails for the backend Wit.ai when no key is given: with
  recognizers that find no speech in any audio, \<^verbatim>\<open>transcribe_speech\<close> answers with the
  missing-key text and not with the text for audio that was not understood, which the
  Google backend returns on the same session.
\<close>

theorem wit_without_key_on_silent_audio:
  "recognize_wit env_silent [] (Some []) [] = Inl (UnknownValueError []) \<and>
   fst (transcribe_speech_mod env_silent ''Wit.ai'' ''en-US'' None
          (init_mod\<lparr>audio_data := Captured []\<rparr>)) = Some ''Error: Wit.ai API key is required'' \<and>
   fst (transcribe_speech_reg env_silent ''Wit.ai'' ''en-US'' None
          (init_mod\<lparr>audio_data := Captured []\<rparr>)) = Some ''Error: Wit.ai API key is required'' \<and>
   fst (transcribe_speech_mod env_silent ''Google'' ''en-US'' None
          (init_mod\<lparr>audio_data := Captured []\<rparr>)) = Some ''Error: Could not understand audio'' \<and>
   fst (transcribe_speech_reg env_silent ''Google'' ''en-US'' None
          (init_mod\<lparr>audio_data := Captured []\<rparr>)) = Some ''Error: Speech not understood''"
  by (simp add: op_defs sample_defs)

lemma unintelligible_call:
  assumes "read_audio_data env s = Inr a" and "f (trace s) a arg = Inl (UnknownValueError m)"
  shows "call_recognizer env ev f arg s = (Inl (UnknownValueError m), record_event ev s)"
  using assms by (simp add: call_recognizer_def)

text \<open>
  C8, amended. For the backends Google and Sphinx, and for Wit.ai when a non-empty key
  is given, a call of \<^verbatim>\<open>transcribe_speech\<close> in which the recognizer signals
  \<^verbatim>\<open>UnknownValueError\<close> for the session's audio returns the text for audio that was
  not understood (\<^verbatim>\<open>Error: Could not understand audio\<close> in \<^verbatim>\<open>speech_mod.py\<close>,
  \<^verbatim>\<open>Error: Speech not understood\<close> in \<^verbatim>\<open>speech_reg.py\<close>), never a transcription.
\<close>

theorem unintelligible_audio_result:
  assumes "read_audio_data env s = Inr a"
  shows
  "(recognize_google env (trace s) a language = Inl (UnknownValueError m) \<longrightarrow>
      fst (transcribe_speech_mod env ''Google'' language key s) =
        Some ''Error: Could not understand audio'' \<and>
      fst (transcribe_speech_reg env ''Google'' language key s) =
        Some ''Error: Speech not understood'') \<and>
   (recognize_sphinx env (trace s) a language = Inl (UnknownValueError m) \<longrightarrow>
      fst (transcribe_speech_mod env ''Sphinx'' language key s) =
        Some ''Error: Could not understand audio'' \<and>
      fst (transcribe_speech_reg env ''Sphinx'' language key s) =
        Some ''Error: Speech not understood'') \<and>
   (k \<noteq> [] \<and> recognize_wit env (trace s) a k = Inl (UnknownValueError m) \<longrightarrow>
      fst (transcribe_speech_mod env ''Wit.ai'' language (Some k) s) =
        Some ''Error: Could not understand audio'' \<and>
      fst (transcribe_speech_reg env ''Wit.ai'' language (Some k) s) =
        Some ''Error: Speech not understood'')"
  using unintelligible_call [OF assms]
  by (simp add: transcribe_speech_mod_def transcribe_body_mod_def
      transcribe_speech_reg_def transcribe_body_reg_def)

theorem unintelligible_audio_result_witness:
  "read_audio_data env_silent (init_mod\<lparr>audio_data := Captured []\<rparr>) = Inr (Some []) \<and>
   recognize_google env_silent (trace (init_mod\<lparr>audio_data := Captured []\<rparr>)) (Some []) ''en-US''
     = Inl (UnknownValueError []) \<and>
   fst (transcribe_speech_mod env_silent ''Google'' ''en-US'' None
          (init_mod\<lparr>audio_data := Captured []\<rparr>)) = Some ''Error: Could not understand audio'' \<and>
   fst (transcribe_speech_reg env_silent ''Sphinx'' ''en-US'' None
          (init_mod\<lparr>audio_data := Captured []\<rparr>)) = Some ''Error: Speech not understood'' \<and>
   fst (transcribe_speech_mod env_silent ''Wit.ai'' ''en-US'' (Some ''secret'')
          (init_mod\<lparr>audio_data := Captured []\<rparr>)) = Some ''Error: Could not understand audio''"
proof -
  let ?s = "init_mod\<lparr>audio_data := Captured []\<rparr>"
  have a: "read_audio_data env_silent ?s = Inr (Some [])"
    by (simp add: read_audio_data_def)
  have g: "recognize_google env_silent (trace ?s) (Some []) ''en-US'' = Inl (UnknownValueError [])"
    and p: "recognize_sphinx env_silent (trace ?s) (Some []) ''en-US'' = Inl (UnknownValueError [])"
    and w: "recognize_wit env_silent (trace ?s) (Some []) ''secret'' = Inl (UnknownValueError [])"
    and k: "''secret'' \<noteq> []"
    by (simp_all add: env_silent_def)
  from unintelligible_audio_result [OF a, of "''en-US''" "[]" None "''secret''"] a g p w k
  show ?thesis by blast
qed


end
